theory Spec2Isabelle
  imports Complex_Main
begin

section \<open>Python values, exceptions and the process state\<close>

text \<open>
  The program is \<^verbatim>\<open>volume.py\<close>: a \<^verbatim>\<open>Factory\<close> and a \<^verbatim>\<open>CollectionFactory\<close> that
  build \<^verbatim>\<open>Volume\<close> objects, and the methods of \<^verbatim>\<open>Volume\<close>.

  A Python \<^verbatim>\<open>float\<close> is modelled by the real number it denotes, with the two infinities and
  NaN as separate values; rounding error of the binary representation and overflow of
  \<^verbatim>\<open>float(n)\<close> for a huge \<^verbatim>\<open>int\<close> are outside the model. \<^verbatim>\<open>bool\<close> is a subclass of \<^verbatim>\<open>int\<close>
  and is read as \<open>PInt 0\<close> or \<open>PInt 1\<close>.
\<close>

datatype pyfloat = Fin real | PosInf | NegInf | NaN

datatype pyval = PInt int | PFloat pyfloat | PStr string | PNone

text \<open>
  The exceptions that can reach a caller. \<open>HostException\<close> stands for any exception
  deriving from \<^verbatim>\<open>Exception\<close> that code outside this file raises, carrying its
  \<^verbatim>\<open>repr\<close>; \<open>HostBaseException\<close> for one deriving from \<^verbatim>\<open>BaseException\<close> only
  (\<^verbatim>\<open>KeyboardInterrupt\<close>, \<^verbatim>\<open>SystemExit\<close>), which \<^verbatim>\<open>except Exception\<close> does not catch.
  The two length assertions carry the length they found. Only exceptions of the host reach
  the one handler of the file, so that \<open>repr\<close> is exact where it is printed; for the others
  it gives the class and the fixed part of the message.
\<close>

datatype pyexc =
    AssertLocation nat
  | AssertScale nat
  | AssertNumeric
  | TypeError
  | ValueError
  | HostException string
  | HostBaseException string

fun is_Exception :: "pyexc \<Rightarrow> bool" where
  "is_Exception (HostBaseException _) = False"
| "is_Exception _ = True"

fun repr :: "pyexc \<Rightarrow> string" where
  "repr (AssertLocation n) = ''AssertionError(Expected 3 location coordinates)''"
| "repr (AssertScale n) = ''AssertionError(Expected 3 scale coordinates)''"
| "repr AssertNumeric = ''AssertionError(Expected numeric tuples scale and location)''"
| "repr TypeError = ''TypeError()''"
| "repr ValueError = ''ValueError()''"
| "repr (HostException s) = s"
| "repr (HostBaseException s) = s"

text \<open>
  The state a call runs in: the pending raw draws of numpy's global generator, the lines
  printed so far, and the scene of the host application (of a type \<open>'h\<close> this file knows
  nothing about).
\<close>

record 'h world =
  rng :: "nat \<Rightarrow> nat"
  stdout :: "string list"
  scene :: 'h

text \<open>
  \<^verbatim>\<open>np.random.randint(low, high)\<close> returns an integer of the half-open interval
  \<open>[low, high)\<close> and raises \<^verbatim>\<open>ValueError\<close> when \<open>low \<ge> high\<close>. The generator itself is not
  modelled: the next raw draw selects the element of the interval.
\<close>

definition randint :: "int \<Rightarrow> int \<Rightarrow> 'h world \<Rightarrow> (pyexc + int) \<times> 'h world" where
  "randint low high w =
     (if low < high
      then (Inr (low + int (rng w 0 mod nat (high - low))), w\<lparr>rng := (\<lambda>i. rng w (Suc i))\<rparr>)
      else (Inl ValueError, w))"

text \<open>
  \<^verbatim>\<open>np.random.random()\<close> returns a float \<open>k / 2^53\<close> with \<open>0 \<le> k < 2^53\<close>.
\<close>

definition random :: "'h world \<Rightarrow> real \<times> 'h world" where
  "random w = (real (rng w 0 mod 2 ^ 53) / 2 ^ 53, w\<lparr>rng := (\<lambda>i. rng w (Suc i))\<rparr>)"

text \<open>
  \<^verbatim>\<open>round(x, 1)\<close> on a float rounds to one decimal, a tie going to the even digit.
\<close>

definition round_half_even :: "real \<Rightarrow> int" where
  "round_half_even q =
     (let f = \<lfloor>q\<rfloor>; d = q - of_int f
      in if d < 1 / 2 then f else if 1 / 2 < d then f + 1 else if even f then f else f + 1)"

definition round1 :: "real \<Rightarrow> real" where
  "round1 x = of_int (round_half_even (10 * x)) / 10"

section \<open>Configuration\<close>

text \<open>
  \<^verbatim>\<open>dataset_config.py\<close> is not part of the sources; its constants are parameters.
  \<open>MODULES\<close> is a dictionary, of which only the keys in their order are used.
\<close>

record config =
  MIN_WIDTH :: int
  MIN_LENGTH :: int
  MIN_HEIGHT :: int
  MAX_WIDTH :: int
  MAX_LENGTH :: int
  MAX_HEIGHT :: int
  MAX_VOLUMES :: int
  MODULES_keys :: "string list"

section \<open>Volume\<close>

record volume =
  height :: pyfloat
  width :: pyfloat
  length_v :: pyfloat
  floor_v :: real
  position :: "pyval list"
  name :: string
  mesh :: "nat option"
  modules :: "nat list"

text \<open>\<^verbatim>\<open>float(max(m, x))\<close> for an integer \<open>m\<close>: \<^verbatim>\<open>max\<close> keeps \<open>m\<close> unless \<^verbatim>\<open>x > m\<close>.\<close>

fun float_max :: "int \<Rightarrow> pyval \<Rightarrow> pyexc + pyfloat" where
  "float_max m (PInt n) = Inr (Fin (of_int (if n > m then n else m)))"
| "float_max m (PFloat (Fin r)) = Inr (Fin (if r > of_int m then r else of_int m))"
| "float_max m (PFloat PosInf) = Inr PosInf"
| "float_max m (PFloat NegInf) = Inr (Fin (of_int m))"
| "float_max m (PFloat NaN) = Inr (Fin (of_int m))"
| "float_max m (PStr s) = Inl TypeError"
| "float_max m PNone = Inl TypeError"

fun is_numeric :: "pyval \<Rightarrow> bool" where
  "is_numeric (PInt n) = True"
| "is_numeric (PFloat f) = True"
| "is_numeric (PStr s) = False"
| "is_numeric PNone = False"

text \<open>\<^verbatim>\<open>max\<close> of a list, which raises \<^verbatim>\<open>ValueError\<close> on the empty list.\<close>

fun max_list :: "int list \<Rightarrow> pyexc + int" where
  "max_list [] = Inl ValueError"
| "max_list (x # xs) = Inr (fold max xs x)"


text \<open>
  \<^verbatim>\<open>Volume.__init__(self, scale, location)\<close>: three assertions, then the fields in the
  order the source assigns them (height, width, length, floor, ...).
\<close>

definition Volume_init ::
  "config \<Rightarrow> pyval list \<Rightarrow> pyval list \<Rightarrow> 'h world \<Rightarrow> (pyexc + volume) \<times> 'h world" where
  "Volume_init cfg scale location w =
     (if length location \<noteq> 3 then (Inl (AssertLocation (length location)), w)
      else if length scale \<noteq> 3 then (Inl (AssertScale (length scale)), w)
      else if max_list (map (\<lambda>x. if is_numeric x then 1 else 0) (scale @ location)) \<noteq> Inr 1
        then (Inl AssertNumeric, w)
      else case float_max (MIN_HEIGHT cfg) (scale ! 2) of
        Inl e \<Rightarrow> (Inl e, w)
      | Inr h \<Rightarrow>
         (case float_max (MIN_WIDTH cfg) (scale ! 0) of
            Inl e \<Rightarrow> (Inl e, w)
          | Inr wd \<Rightarrow>
             (case float_max (MIN_LENGTH cfg) (scale ! 1) of
                Inl e \<Rightarrow> (Inl e, w)
              | Inr l \<Rightarrow>
                 (let (u, w') = random w
                  in (Inr \<lparr>height = h, width = wd, length_v = l,
                           floor_v = 27 / 10 + round1 u, position = location,
                           name = [], mesh = None, modules = []\<rparr>, w')))))"

section \<open>Sequencing calls that may raise\<close>

text \<open>
  A call takes the state and returns a result or the exception it raised, with the state
  it left behind. \<open>exc_bind\<close> runs the second call only when the first returned.
\<close>

definition exc_return :: "'a \<Rightarrow> 's \<Rightarrow> (pyexc + 'a) \<times> 's" where
  "exc_return x s = (Inr x, s)"

definition exc_bind ::
  "('s \<Rightarrow> (pyexc + 'a) \<times> 's) \<Rightarrow> ('a \<Rightarrow> 's \<Rightarrow> (pyexc + 'b) \<times> 's) \<Rightarrow> 's \<Rightarrow> (pyexc + 'b) \<times> 's" where
  "exc_bind m f s = (case m s of (Inl e, s') \<Rightarrow> (Inl e, s') | (Inr x, s') \<Rightarrow> f x s')"

section \<open>The host application and the module classes\<close>

text \<open>
  \<^verbatim>\<open>bpy\<close>, \<^verbatim>\<open>blender_utils\<close>, \<^verbatim>\<open>shp2obj.deselect_all\<close> and the classes of \<^verbatim>\<open>module.py\<close> are
  outside this file. Each statement of \<^verbatim>\<open>volume.py\<close> that calls them is one field of
  \<open>host\<close>: an arbitrary function of the state that may raise. Host objects are handles.
\<close>

record 'h host =
  deselect_all :: "'h world \<Rightarrow> (pyexc + unit) \<times> 'h world"
  primitive_plane_add :: "pyval list \<Rightarrow> 'h world \<Rightarrow> (pyexc + unit) \<times> 'h world"
  transform_resize :: "pyfloat \<Rightarrow> pyfloat \<Rightarrow> 'h world \<Rightarrow> (pyexc + unit) \<times> 'h world"
  set_selected_name :: "string \<Rightarrow> 'h world \<Rightarrow> (pyexc + unit) \<times> 'h world"
  get_selected_name :: "'h world \<Rightarrow> (pyexc + string) \<times> 'h world"
  data_objects :: "string \<Rightarrow> 'h world \<Rightarrow> (pyexc + nat) \<times> 'h world"
  collection_names :: "'h world \<Rightarrow> (pyexc + string list) \<times> 'h world"
  collections_new :: "string \<Rightarrow> 'h world \<Rightarrow> (pyexc + unit) \<times> 'h world"
  link_child :: "string \<Rightarrow> 'h world \<Rightarrow> (pyexc + unit) \<times> 'h world"
  link_object :: "string \<Rightarrow> nat \<Rightarrow> 'h world \<Rightarrow> (pyexc + unit) \<times> 'h world"
  collections_get :: "string \<Rightarrow> 'h world \<Rightarrow> (pyexc + unit) \<times> 'h world"
  extrude :: "nat \<Rightarrow> pyfloat \<Rightarrow> 'h world \<Rightarrow> (pyexc + unit) \<times> 'h world"
  set_inst_id :: "nat \<Rightarrow> int \<Rightarrow> 'h world \<Rightarrow> (pyexc + unit) \<times> 'h world"
  set_pass_index :: "nat \<Rightarrow> int \<Rightarrow> 'h world \<Rightarrow> (pyexc + unit) \<times> 'h world"
  select :: "nat \<Rightarrow> 'h world \<Rightarrow> (pyexc + unit) \<times> 'h world"
  modifier_add_triangulate :: "'h world \<Rightarrow> (pyexc + unit) \<times> 'h world"
  modifier_apply :: "'h world \<Rightarrow> (pyexc + unit) \<times> 'h world"
  module_produce :: "string \<Rightarrow> volume \<Rightarrow> 'h world \<Rightarrow> (pyexc + nat) \<times> 'h world"
  module_connect :: "nat \<Rightarrow> nat \<Rightarrow> nat \<Rightarrow> 'h world \<Rightarrow> (pyexc + unit) \<times> 'h world"
  module_apply :: "nat \<Rightarrow> 'h world \<Rightarrow> (pyexc + unit) \<times> 'h world"
  applier_produce :: "string \<Rightarrow> 'h world \<Rightarrow> (pyexc + nat) \<times> 'h world"
  applier_apply ::
    "nat \<Rightarrow> nat \<Rightarrow> int \<times> real \<Rightarrow> real \<times> real \<times> real \<times> real \<Rightarrow> 'h world \<Rightarrow> (pyexc + unit) \<times> 'h world"

section \<open>Volume.create and its helpers\<close>

text \<open>\<^verbatim>\<open>Volume._nest\<close>.\<close>

definition nest :: "'h host \<Rightarrow> volume \<Rightarrow> nat \<Rightarrow> 'h world \<Rightarrow> (pyexc + unit) \<times> 'h world" where
  "nest host v m =
     exc_bind (deselect_all host) (\<lambda>_.
     exc_bind (collection_names host) (\<lambda>names.
       if name v \<notin> set names
       then exc_bind (collections_new host (name v)) (\<lambda>_.
            exc_bind (link_child host (name v)) (\<lambda>_.
            exc_bind (link_object host (name v) m) (\<lambda>_.
            collections_get host (name v))))
       else exc_return ()))"

text \<open>\<^verbatim>\<open>Volume._extrude\<close>: nothing is extruded while \<^verbatim>\<open>self.mesh\<close> is \<^verbatim>\<open>None\<close>.\<close>

definition extrude_v :: "'h host \<Rightarrow> volume \<Rightarrow> 'h world \<Rightarrow> (pyexc + unit) \<times> 'h world" where
  "extrude_v host v =
     exc_bind (deselect_all host) (\<lambda>_.
       case mesh v of None \<Rightarrow> exc_return () | Some m \<Rightarrow> extrude host m (height v))"

text \<open>\<^verbatim>\<open>Volume._triangulate\<close>.\<close>

definition triangulate :: "'h host \<Rightarrow> volume \<Rightarrow> 'h world \<Rightarrow> (pyexc + unit) \<times> 'h world" where
  "triangulate host v =
     exc_bind (deselect_all host) (\<lambda>_.
       case mesh v of
         None \<Rightarrow> exc_return ()
       | Some m \<Rightarrow>
           exc_bind (select host m) (\<lambda>_.
           exc_bind (modifier_add_triangulate host) (\<lambda>_.
           modifier_apply host)))"

text \<open>
  \<^verbatim>\<open>Volume.create\<close>. The method mutates \<^verbatim>\<open>self\<close>; the model returns the volume with the
  name the host gave the object and the handle of its mesh.
\<close>

definition create :: "'h host \<Rightarrow> volume \<Rightarrow> 'h world \<Rightarrow> (pyexc + volume) \<times> 'h world" where
  "create host v =
     exc_bind (deselect_all host) (\<lambda>_.
     exc_bind (primitive_plane_add host (position v)) (\<lambda>_.
     exc_bind (transform_resize host (length_v v) (width v)) (\<lambda>_.
     exc_bind (set_selected_name host ''volume'') (\<lambda>_.
     exc_bind (get_selected_name host) (\<lambda>nm.
     exc_bind (data_objects host nm) (\<lambda>m.
     exc_bind (nest host (v\<lparr>name := nm, mesh := Some m\<rparr>) m) (\<lambda>_.
     exc_bind (extrude_v host (v\<lparr>name := nm, mesh := Some m\<rparr>)) (\<lambda>_.
     exc_bind (set_inst_id host m 1) (\<lambda>_.
     exc_bind (set_pass_index host m 1) (\<lambda>_.
     exc_bind (deselect_all host) (\<lambda>_.
     exc_bind (triangulate host (v\<lparr>name := nm, mesh := Some m\<rparr>)) (\<lambda>_.
     exc_return (v\<lparr>name := nm, mesh := Some m\<rparr>)))))))))))))"

section \<open>Factory\<close>

record factory =
  min_width :: int
  min_length :: int
  min_height :: int
  max_width :: int
  max_length :: int
  max_height :: int

definition Factory_init :: "config \<Rightarrow> factory" where
  "Factory_init cfg =
     \<lparr>min_width = MIN_WIDTH cfg, min_length = MIN_LENGTH cfg, min_height = MIN_HEIGHT cfg,
      max_width = MAX_WIDTH cfg, max_length = MAX_LENGTH cfg, max_height = MAX_HEIGHT cfg\<rparr>"

text \<open>The default \<^verbatim>\<open>location=(0.0, 0.0, 0.0)\<close> of \<^verbatim>\<open>Volume.__init__\<close>.\<close>

definition default_location :: "pyval list" where
  "default_location = [PFloat (Fin 0), PFloat (Fin 0), PFloat (Fin 0)]"

text \<open>
  \<^verbatim>\<open>Factory._produce_random\<close>: the three draws in the order the tuple is written, the first
  from the length bounds, the second from the width bounds.
\<close>

definition produce_random :: "config \<Rightarrow> factory \<Rightarrow> 'h world \<Rightarrow> (pyexc + volume) \<times> 'h world" where
  "produce_random cfg f =
     exc_bind (randint (min_length f) (max_length f)) (\<lambda>a.
     exc_bind (randint (min_width f) (max_width f)) (\<lambda>b.
     exc_bind (randint (min_height f) (max_height f)) (\<lambda>c.
     Volume_init cfg [PInt a, PInt b, PInt c] default_location)))"

text \<open>\<^verbatim>\<open>Factory.produce(scale=None)\<close>.\<close>

definition produce ::
  "config \<Rightarrow> 'h host \<Rightarrow> factory \<Rightarrow> pyval list option \<Rightarrow> 'h world \<Rightarrow> (pyexc + volume) \<times> 'h world" where
  "produce cfg host f scale =
     (case scale of
        None \<Rightarrow> produce_random cfg f
      | Some sc \<Rightarrow> exc_bind (Volume_init cfg sc default_location) (\<lambda>v. create host v))"

section \<open>CollectionFactory\<close>





section \<open>Volume.add_modules\<close>

text \<open>
  One entry per iteration of the innermost loop, written where the iteration takes its
  branch: the module type, axis and side, the step and the draw of the iteration, the
  probability in force, and whether the attaching branch was entered. The entries are a
  history of the run and no part of the program's state.
\<close>

record attempt =
  a_module :: string
  a_axis :: nat
  a_side :: nat
  a_x_step :: int
  a_draw :: real
  a_prob :: real
  a_attached :: bool

text \<open>A call on the world, run on the pair of the world and the history.\<close>

definition on_world ::
  "('w \<Rightarrow> (pyexc + 'a) \<times> 'w) \<Rightarrow> 'w \<times> attempt list \<Rightarrow> (pyexc + 'a) \<times> ('w \<times> attempt list)" where
  "on_world m s = (case m (fst s) of (r, w') \<Rightarrow> (r, (w', snd s)))"

text \<open>
  \<^verbatim>\<open>try: module.apply()\<close> with its handler \<^verbatim>\<open>except Exception as e: print(repr(e))\<close>.
\<close>

definition try_apply :: "'h host \<Rightarrow> nat \<Rightarrow> 'h world \<Rightarrow> (pyexc + unit) \<times> 'h world" where
  "try_apply host mdl w =
     (case module_apply host mdl w of
        (Inl e, w') \<Rightarrow>
          if is_Exception e then (Inr (), w'\<lparr>stdout := stdout w' @ [repr e]\<rparr>)
          else (Inl e, w')
      | (Inr _, w') \<Rightarrow> (Inr (), w'))"

text \<open>The body of \<^verbatim>\<open>if np.random.random() <= prob:\<close>.\<close>

definition attach ::
  "'h host \<Rightarrow> volume \<Rightarrow> string \<Rightarrow> nat \<Rightarrow> nat \<Rightarrow> int \<Rightarrow> 'h world \<Rightarrow> (pyexc + unit) \<times> 'h world" where
  "attach host v module_name axis side x_step =
     exc_bind (module_produce host module_name v) (\<lambda>mdl.
     exc_bind (module_connect host mdl axis side) (\<lambda>_.
     exc_bind (try_apply host mdl) (\<lambda>_.
     exc_bind (applier_produce host module_name) (\<lambda>applier.
     applier_apply host applier mdl (x_step, floor_v v) (2, 1, 2, 1)))))"

text \<open>The body of the innermost loop.\<close>

definition place ::
  "'h host \<Rightarrow> volume \<Rightarrow> string \<Rightarrow> real \<Rightarrow> nat \<Rightarrow> nat \<Rightarrow> 'h world \<times> attempt list \<Rightarrow>
     (pyexc + unit) \<times> ('h world \<times> attempt list)" where
  "place host v module_name prob axis side s =
     (case randint 2 6 (fst s) of
        (Inl e, w1) \<Rightarrow> (Inl e, (w1, snd s))
      | (Inr x_step, w1) \<Rightarrow>
          (let (u, w2) = random w1
           in if u \<le> prob
              then on_world (attach host v module_name axis side x_step)
                     (w2, snd s @ [\<lparr>a_module = module_name, a_axis = axis, a_side = side,
                                     a_x_step = x_step, a_draw = u, a_prob = prob,
                                     a_attached = True\<rparr>])
              else (Inr (), (w2, snd s @ [\<lparr>a_module = module_name, a_axis = axis,
                                     a_side = side, a_x_step = x_step, a_draw = u,
                                     a_prob = prob, a_attached = False\<rparr>]))))"

text \<open>A \<^verbatim>\<open>for\<close> loop, left by the first exception its body raises.\<close>

fun for_each :: "('a \<Rightarrow> 's \<Rightarrow> (pyexc + unit) \<times> 's) \<Rightarrow> 'a list \<Rightarrow> 's \<Rightarrow> (pyexc + unit) \<times> 's" where
  "for_each body [] s = (Inr (), s)"
| "for_each body (x # xs) s =
     (case body x s of (Inl e, s') \<Rightarrow> (Inl e, s') | (Inr _, s') \<Rightarrow> for_each body xs s')"

text \<open>\<^verbatim>\<open>Volume.add_modules\<close>, on \<^verbatim>\<open>list(MODULES.keys())\<close>.\<close>

definition add_modules ::
  "config \<Rightarrow> 'h host \<Rightarrow> volume \<Rightarrow> 'h world \<times> attempt list \<Rightarrow>
     (pyexc + unit) \<times> ('h world \<times> attempt list)" where
  "add_modules cfg host v =
     for_each (\<lambda>module_name.
       let n = (if module_name = ''roof'' then 1 else 2);
           prob = (if module_name = ''roof'' then 1 else 3 / 4)
       in for_each (\<lambda>axis. for_each (\<lambda>side. place host v module_name prob axis side) [0..<n])
            [0..<n])
       (MODULES_keys cfg)"

section \<open>Concrete inputs\<close>

text \<open>
  A configuration whose width and length bounds differ, a generator whose raw draws are
  all zero, and hosts whose calls all return, but for one call that raises.
\<close>

definition example_config :: config where
  "example_config =
     \<lparr>MIN_WIDTH = 2, MIN_LENGTH = 10, MIN_HEIGHT = 3,
      MAX_WIDTH = 4, MAX_LENGTH = 20, MAX_HEIGHT = 5,
      MAX_VOLUMES = 3, MODULES_keys = [''window'', ''balcony'', ''roof'']\<rparr>"

definition zero_world :: "unit world" where
  "zero_world = \<lparr>rng = (\<lambda>i. 0), stdout = [], scene = ()\<rparr>"

definition quiet_host :: "unit host" where
  "quiet_host =
     \<lparr>deselect_all = (\<lambda>w. (Inr (), w)),
      primitive_plane_add = (\<lambda>p w. (Inr (), w)),
      transform_resize = (\<lambda>l wd w. (Inr (), w)),
      set_selected_name = (\<lambda>n w. (Inr (), w)),
      get_selected_name = (\<lambda>w. (Inr ''volume'', w)),
      data_objects = (\<lambda>n w. (Inr 0, w)),
      collection_names = (\<lambda>w. (Inr [], w)),
      collections_new = (\<lambda>n w. (Inr (), w)),
      link_child = (\<lambda>n w. (Inr (), w)),
      link_object = (\<lambda>n m w. (Inr (), w)),
      collections_get = (\<lambda>n w. (Inr (), w)),
      extrude = (\<lambda>m h w. (Inr (), w)),
      set_inst_id = (\<lambda>m i w. (Inr (), w)),
      set_pass_index = (\<lambda>m i w. (Inr (), w)),
      select = (\<lambda>m w. (Inr (), w)),
      modifier_add_triangulate = (\<lambda>w. (Inr (), w)),
      modifier_apply = (\<lambda>w. (Inr (), w)),
      module_produce = (\<lambda>n v w. (Inr 0, w)),
      module_connect = (\<lambda>m a s w. (Inr (), w)),
      module_apply = (\<lambda>m w. (Inr (), w)),
      applier_produce = (\<lambda>n w. (Inr 0, w)),
      applier_apply = (\<lambda>a m st off w. (Inr (), w))\<rparr>"



definition example_volume :: volume where
  "example_volume =
     \<lparr>height = Fin 3, width = Fin 10, length_v = Fin 10, floor_v = 27 / 10,
      position = default_location, name = ''volume'', mesh = Some 0, modules = []\<rparr>"


section \<open>Predicates of the statements\<close>




text \<open>The stored width, length and height of a volume.\<close>

definition dims :: "volume \<Rightarrow> pyfloat \<times> pyfloat \<times> pyfloat" where
  "dims v = (width v, length_v v, height v)"

text \<open>The module type, axis and side of an iteration.\<close>

definition attempt_key :: "attempt \<Rightarrow> string \<times> nat \<times> nat" where
  "attempt_key a = (a_module a, a_axis a, a_side a)"

text \<open>The placements as the specification counts them: for every module type in turn, the one
  placement (axis 0, side 0) of a roof, the four placements (axis and side in \<open>{0, 1}\<close>, the
  side changing fastest) of any other type.\<close>

definition claimed_placements :: "string list \<Rightarrow> (string \<times> nat \<times> nat) list" where
  "claimed_placements keys =
     concat (map (\<lambda>m. if m = ''roof'' then [(m, 0, 0)]
                        else [(m, 0, 0), (m, 0, 1), (m, 1, 0), (m, 1, 1)]) keys)"




section \<open>Lemmas about the model\<close>







lemma fold_max_01: "x \<in> {0, 1} \<Longrightarrow> set xs \<subseteq> {0, 1::int} \<Longrightarrow> fold max xs x = 1 \<longleftrightarrow> x = 1 \<or> 1 \<in> set xs"
  by (induction xs arbitrary: x) (auto simp: max_def)

lemma max_list_flags:
  "max_list (map (\<lambda>x. if P x then 1 else 0) xs) = Inr 1 \<longleftrightarrow> (\<exists>x \<in> set xs. P x)"
proof (cases xs)
  case Nil then show ?thesis by simp
next
  case (Cons y ys)
  have "set (map (\<lambda>x. if P x then 1 else 0::int) ys) \<subseteq> {0, 1}" by auto
  then show ?thesis using Cons fold_max_01[of "if P y then 1 else 0" "map (\<lambda>x. if P x then 1 else 0) ys"]
    by (auto split: if_splits)
qed











lemma randint_range:
  assumes "randint low high w = (Inr k, w')"
  shows "low \<le> k \<and> k < high"
proof -
  from assms have lt: "low < high" and k: "k = low + int (rng w 0 mod nat (high - low))"
    by (auto simp: randint_def split: if_splits)
  from lt have "rng w 0 mod nat (high - low) < nat (high - low)" by simp
  with lt k show ?thesis by linarith
qed



lemma Volume_init_unfold:
  "Volume_init cfg scale location w =
     (if length location \<noteq> 3 then (Inl (AssertLocation (length location)), w)
      else if length scale \<noteq> 3 then (Inl (AssertScale (length scale)), w)
      else if \<not> (\<exists>x \<in> set (scale @ location). is_numeric x) then (Inl AssertNumeric, w)
      else case float_max (MIN_HEIGHT cfg) (scale ! 2) of
        Inl e \<Rightarrow> (Inl e, w)
      | Inr h \<Rightarrow>
         (case float_max (MIN_WIDTH cfg) (scale ! 0) of
            Inl e \<Rightarrow> (Inl e, w)
          | Inr wd \<Rightarrow>
             (case float_max (MIN_LENGTH cfg) (scale ! 1) of
                Inl e \<Rightarrow> (Inl e, w)
              | Inr l \<Rightarrow>
                 (let (u, w') = random w
                  in (Inr \<lparr>height = h, width = wd, length_v = l,
                           floor_v = 27 / 10 + round1 u, position = location,
                           name = [], mesh = None, modules = []\<rparr>, w')))))"
  by (simp only: Volume_init_def max_list_flags)



lemma produce_None: "produce cfg host f None = produce_random cfg f"
  by (simp add: produce_def)






lemma float_max_PInt: "float_max m (PInt n) = Inr (Fin (of_int (max m n)))"
  by (simp add: max_def)

lemma Volume_init_ints:
  "Volume_init cfg [PInt a, PInt b, PInt c] default_location w =
     (Inr \<lparr>height = Fin (of_int (max (MIN_HEIGHT cfg) c)),
           width = Fin (of_int (max (MIN_WIDTH cfg) a)),
           length_v = Fin (of_int (max (MIN_LENGTH cfg) b)),
           floor_v = 27 / 10 + round1 (fst (random w)), position = default_location,
           name = [], mesh = None, modules = []\<rparr>, snd (random w))"
  by (subst Volume_init_unfold)
     (simp add: default_location_def float_max_PInt case_prod_beta Let_def del: float_max.simps)

lemma produce_random_value:
  assumes "min_length f < max_length f" "min_width f < max_width f" "min_height f < max_height f"
  shows "\<exists>a b c w1.
           min_length f \<le> a \<and> a < max_length f \<and>
           min_width f \<le> b \<and> b < max_width f \<and>
           min_height f \<le> c \<and> c < max_height f \<and>
           produce_random cfg f w = Volume_init cfg [PInt a, PInt b, PInt c] default_location w1 \<and>
           scene w1 = scene w \<and> stdout w1 = stdout w"
proof -
  obtain a w1 where a: "randint (min_length f) (max_length f) w = (Inr a, w1)"
    and w1: "w1 = w\<lparr>rng := (\<lambda>i. rng w (Suc i))\<rparr>"
    using assms(1) by (simp add: randint_def)
  obtain b w2 where b: "randint (min_width f) (max_width f) w1 = (Inr b, w2)"
    and w2: "w2 = w1\<lparr>rng := (\<lambda>i. rng w1 (Suc i))\<rparr>"
    using assms(2) by (simp add: randint_def)
  obtain c w3 where c: "randint (min_height f) (max_height f) w2 = (Inr c, w3)"
    and w3: "w3 = w2\<lparr>rng := (\<lambda>i. rng w2 (Suc i))\<rparr>"
    using assms(3) by (simp add: randint_def)
  have "produce_random cfg f w = Volume_init cfg [PInt a, PInt b, PInt c] default_location w3"
    by (simp add: produce_random_def exc_bind_def a b c)
  moreover have "scene w3 = scene w \<and> stdout w3 = stdout w"
    by (simp add: w1 w2 w3)
  ultimately show ?thesis
    using randint_range[OF a] randint_range[OF b] randint_range[OF c] by blast
qed

lemma randint_2_6:
  "randint 2 6 w = (Inr (2 + int (rng w 0 mod 4)), w\<lparr>rng := (\<lambda>i. rng w (Suc i))\<rparr>)"
  by (simp add: randint_def)

lemma place_appends:
  assumes "place host v m p axis side s = (r, s')"
  shows "\<exists>a. snd s' = snd s @ [a] \<and> a_module a = m \<and> a_axis a = axis \<and> a_side a = side \<and>
           a_prob a = p \<and> a_x_step a = 2 + int (rng (fst s) 0 mod 4) \<and>
           a_draw a = fst (random (snd (randint 2 6 (fst s)))) \<and>
           (a_attached a \<longleftrightarrow> a_draw a \<le> p)"
  using assms unfolding place_def randint_2_6
  by (auto simp: case_prod_beta Let_def on_world_def split: if_splits prod.splits)


lemma for_each_trace:
  assumes body: "\<And>x s r s'. body x s = (r, s') \<Longrightarrow>
     \<exists>L rest. snd s' = snd s @ L \<and> E x = map attempt_key L @ rest \<and> (r = Inr () \<longrightarrow> rest = [])"
  assumes run: "for_each body xs s = (r, s')"
  shows "\<exists>L rest. snd s' = snd s @ L \<and> concat (map E xs) = map attempt_key L @ rest \<and>
           (r = Inr () \<longrightarrow> rest = [])"
  using run
proof (induction xs arbitrary: s)
  case Nil
  then show ?case by simp
next
  case (Cons x xs)
  obtain rx s1 where b: "body x s = (rx, s1)" by (cases "body x s")
  from body[OF b] obtain L1 rest1 where L1: "snd s1 = snd s @ L1"
    "E x = map attempt_key L1 @ rest1" "rx = Inr () \<longrightarrow> rest1 = []" by blast
  show ?case
  proof (cases rx)
    case (Inl e)
    with Cons.prems b have "s' = s1" "r = Inl e" by simp_all
    with L1 have "snd s' = snd s @ L1 \<and>
       concat (map E (x # xs)) = map attempt_key L1 @ (rest1 @ concat (map E xs)) \<and>
       (r = Inr () \<longrightarrow> rest1 @ concat (map E xs) = [])" by simp
    then show ?thesis by blast
  next
    case (Inr u)
    with Cons.prems b have "for_each body xs s1 = (r, s')" by simp
    from Cons.IH[OF this] obtain L2 rest2 where L2: "snd s' = snd s1 @ L2"
      "concat (map E xs) = map attempt_key L2 @ rest2" "r = Inr () \<longrightarrow> rest2 = []" by blast
    from Inr L1(3) have "rest1 = []" by simp
    with L1 L2 have "snd s' = snd s @ (L1 @ L2) \<and>
       concat (map E (x # xs)) = map attempt_key (L1 @ L2) @ rest2 \<and>
       (r = Inr () \<longrightarrow> rest2 = [])" by simp
    then show ?thesis by blast
  qed
qed


lemma upt_2: "[0..<2] = [0, 1]"
  by (simp add: upt_rec)

lemma upt_1: "[0..<1] = [0]"
  by (simp add: upt_rec)

lemma add_modules_trace:
  assumes run: "add_modules cfg host v s = (r, s')"
  shows "\<exists>L rest. snd s' = snd s @ L \<and>
           claimed_placements (MODULES_keys cfg) = map attempt_key L @ rest \<and>
           (r = Inr () \<longrightarrow> rest = [])"
proof -
  let ?P = "\<lambda>m. if m = ''roof'' then 1 else 3 / (4::real)"
  let ?N = "\<lambda>m. if m = ''roof'' then 1 else (2::nat)"
  have inner: "\<exists>L rest. snd t' = snd t @ L \<and> [(m, axis, side)] = map attempt_key L @ rest \<and>
      (q = Inr () \<longrightarrow> rest = [])"
    if "place host v m (?P m) axis side t = (q, t')" for m axis side t q t'
  proof -
    from place_appends[OF that] obtain a where "snd t' = snd t @ [a]"
      "attempt_key a = (m, axis, side)" by (auto simp: attempt_key_def)
    then have "snd t' = snd t @ [a] \<and> [(m, axis, side)] = map attempt_key [a] @ [] \<and>
      (q = Inr () \<longrightarrow> [] = ([] :: (string \<times> nat \<times> nat) list))" by simp
    then show ?thesis by blast
  qed
  have sides: "\<exists>L rest. snd t' = snd t @ L \<and>
      concat (map (\<lambda>side. [(m, axis, side)]) xs) = map attempt_key L @ rest \<and>
      (q = Inr () \<longrightarrow> rest = [])"
    if run1: "for_each (\<lambda>side. place host v m (?P m) axis side) xs t = (q, t')"
    for m axis xs t q t'
  proof (rule for_each_trace[of "\<lambda>side. place host v m (?P m) axis side"
        "\<lambda>side. [(m, axis, side)]" xs t q t'])
    show "for_each (\<lambda>side. place host v m (?P m) axis side) xs t = (q, t')" by (rule run1)
  next
    fix x u q1 u'
    assume "place host v m (?P m) axis x u = (q1, u')"
    then show "\<exists>L rest. snd u' = snd u @ L \<and> [(m, axis, x)] = map attempt_key L @ rest \<and>
      (q1 = Inr () \<longrightarrow> rest = [])" by (rule inner)
  qed
  have axes: "\<exists>L rest. snd t' = snd t @ L \<and>
      concat (map (\<lambda>axis. concat (map (\<lambda>side. [(m, axis, side)]) xs)) ys)
        = map attempt_key L @ rest \<and>
      (q = Inr () \<longrightarrow> rest = [])"
    if run2: "for_each (\<lambda>axis. for_each (\<lambda>side. place host v m (?P m) axis side) xs) ys t = (q, t')"
    for m xs ys t q t'
  proof (rule for_each_trace[of "\<lambda>axis. for_each (\<lambda>side. place host v m (?P m) axis side) xs"
        "\<lambda>axis. concat (map (\<lambda>side. [(m, axis, side)]) xs)" ys t q t'])
    show "for_each (\<lambda>axis. for_each (\<lambda>side. place host v m (?P m) axis side) xs) ys t = (q, t')"
      by (rule run2)
  next
    fix x u q1 u'
    assume "for_each (\<lambda>side. place host v m (?P m) x side) xs u = (q1, u')"
    then show "\<exists>L rest. snd u' = snd u @ L \<and>
      concat (map (\<lambda>side. [(m, x, side)]) xs) = map attempt_key L @ rest \<and>
      (q1 = Inr () \<longrightarrow> rest = [])" by (rule sides)
  qed
  have keys: "\<exists>L rest. snd s' = snd s @ L \<and>
      concat (map (\<lambda>m. concat (map (\<lambda>axis. concat (map (\<lambda>side. [(m, axis, side)]) [0..<?N m]))
          [0..<?N m])) (MODULES_keys cfg)) = map attempt_key L @ rest \<and>
      (r = Inr () \<longrightarrow> rest = [])"
  proof (rule for_each_trace[of "\<lambda>m. for_each (\<lambda>axis. for_each
          (\<lambda>side. place host v m (?P m) axis side) [0..<?N m]) [0..<?N m]"
        "\<lambda>m. concat (map (\<lambda>axis. concat (map (\<lambda>side. [(m, axis, side)]) [0..<?N m])) [0..<?N m])"
        "MODULES_keys cfg" s r s'])
    show "for_each (\<lambda>m. for_each (\<lambda>axis. for_each
          (\<lambda>side. place host v m (?P m) axis side) [0..<?N m]) [0..<?N m])
        (MODULES_keys cfg) s = (r, s')"
      using run unfolding add_modules_def Let_def .
  next
    fix x u q1 u'
    assume "for_each (\<lambda>axis. for_each (\<lambda>side. place host v x (?P x) axis side) [0..<?N x])
        [0..<?N x] u = (q1, u')"
    then show "\<exists>L rest. snd u' = snd u @ L \<and>
      concat (map (\<lambda>axis. concat (map (\<lambda>side. [(x, axis, side)]) [0..<?N x])) [0..<?N x])
        = map attempt_key L @ rest \<and>
      (q1 = Inr () \<longrightarrow> rest = [])" by (rule axes)
  qed
  have "(\<lambda>m. concat (map (\<lambda>axis. concat (map (\<lambda>side. [(m, axis, side)]) [0..<?N m])) [0..<?N m]))
      = (\<lambda>m. if m = ''roof'' then [(m, 0, 0)] else [(m, 0, 0), (m, 0, 1), (m, 1, 0), (m, 1, 1)])"
    by (rule ext) (simp add: upt_2 upt_1)
  with keys show ?thesis unfolding claimed_placements_def by simp
qed

lemma claimed_placements_count:
  assumes "distinct keys" "m \<in> set keys"
  shows "filter (\<lambda>p. fst p = m) (claimed_placements keys) =
           (if m = ''roof'' then [(m, 0, 0)] else [(m, 0, 0), (m, 0, 1), (m, 1, 0), (m, 1, 1)])"
  using assms
proof (induction keys)
  case Nil
  then show ?case by simp
next
  case (Cons k ks)
  have none: "filter (\<lambda>p. fst p = m) (claimed_placements ks) = []" if "m \<notin> set ks"
    using that by (induction ks) (auto simp: claimed_placements_def)
  have step: "claimed_placements (k # ks) =
      (if k = ''roof'' then [(k, 0, 0)] else [(k, 0, 0), (k, 0, 1), (k, 1, 0), (k, 1, 1)])
      @ claimed_placements ks"
    by (simp add: claimed_placements_def)
  show ?case
  proof (cases "k = m")
    case True
    with Cons.prems have "m \<notin> set ks" by simp
    from none[OF this] True show ?thesis unfolding step by simp
  next
    case False
    with Cons.prems have "distinct ks" "m \<in> set ks" by simp_all
    from Cons.IH[OF this] False show ?thesis unfolding step by simp
  qed
qed

lemma zero_world_draws:
  "randint 2 6 zero_world = (Inr 2, zero_world)" "random zero_world = (0, zero_world)"
  by (simp_all add: randint_2_6 random_def zero_world_def)

lemma attach_quiet: "attach quiet_host v m axis side x w = (Inr (), w)"
  by (simp add: attach_def exc_bind_def try_apply_def quiet_host_def)

lemma place_quiet:
  assumes "0 \<le> p"
  shows "place quiet_host v m p axis side (zero_world, lg) =
     (Inr (), (zero_world, lg @ [\<lparr>a_module = m, a_axis = axis, a_side = side, a_x_step = 2,
        a_draw = 0, a_prob = p, a_attached = True\<rparr>]))"
  using assms by (simp add: place_def zero_world_draws on_world_def attach_quiet)

lemma add_modules_example:
  "add_modules example_config quiet_host example_volume (zero_world, []) =
     (Inr (), (zero_world, map (\<lambda>(m, axis, side).
         \<lparr>a_module = m, a_axis = axis, a_side = side, a_x_step = 2, a_draw = 0,
          a_prob = (if m = ''roof'' then 1 else 3 / 4), a_attached = True\<rparr>)
       (claimed_placements (MODULES_keys example_config))))"
  by (simp add: add_modules_def example_config_def upt_2 upt_1 place_quiet claimed_placements_def)



lemma attempt_key_filter:
  "map attempt_key (filter (\<lambda>a. a_module a = m) L) = filter (\<lambda>p. fst p = m) (map attempt_key L)"
  by (induction L) (auto simp: attempt_key_def)














section \<open>Dimensions at least the minimums\<close>



section \<open>Number of volumes of a collection\<close>




section \<open>The decision to attach\<close>



section \<open>Random dimensions\<close>

text \<open>
  Claim C4. The code departs from it in two ways. The first element of the scale, which
  the constructor stores as the width, is drawn from the length bounds, and the second from
  the width bounds: with width bounds \<open>[2, 4]\<close> and length bounds \<open>[10, 20]\<close> the width is
  10 and the length is the draw 2 raised to \<open>MIN_LENGTH = 10\<close>. And the upper bound of
  \<^verbatim>\<open>randint\<close> is exclusive: with height bounds \<open>[3, 5]\<close> no state of the generator gives the
  height 5.
\<close>

theorem random_dimensions_swapped_and_exclusive:
  "map_sum id dims (fst (produce_random example_config (Factory_init example_config) zero_world))
     = Inr (Fin 10, Fin 10, Fin 3) \<and>
   (\<forall>w :: unit world.
      map_sum id height (fst (produce_random example_config (Factory_init example_config) w))
        \<noteq> Inr (Fin 5))"
proof
  show "map_sum id dims (fst (produce_random example_config (Factory_init example_config) zero_world))
     = Inr (Fin 10, Fin 10, Fin 3)"
    by (simp add: produce_random_def exc_bind_def randint_def Factory_init_def example_config_def
        zero_world_def Volume_init_ints dims_def)
next
  show "\<forall>w :: unit world.
      map_sum id height (fst (produce_random example_config (Factory_init example_config) w))
        \<noteq> Inr (Fin 5)"
  proof
    fix w :: "unit world"
    let ?f = "Factory_init example_config"
    have "min_length ?f < max_length ?f" "min_width ?f < max_width ?f"
      "min_height ?f < max_height ?f" "min_height ?f = 3" "max_height ?f = 5"
      by (simp_all add: Factory_init_def example_config_def)
    from produce_random_value[OF this(1,2,3), of example_config w] this(4,5)
    obtain a b c w1 where c: "3 \<le> c" "c < 5"
      and p: "produce_random example_config ?f w
                = Volume_init example_config [PInt a, PInt b, PInt c] default_location w1"
      by auto
    show "map_sum id height (fst (produce_random example_config ?f w)) \<noteq> Inr (Fin 5)"
    proof -
      have "MIN_HEIGHT example_config = 3" by (simp add: example_config_def)
      then show ?thesis using c by (simp add: p Volume_init_ints)
    qed
  qed
qed

section \<open>Failures while applying a module\<close>




section \<open>Creation of produced volumes\<close>

text \<open>
  Claim C6. \<^verbatim>\<open>Factory.produce\<close> with no scale returns what \<^verbatim>\<open>_produce_random\<close> returns,
  which never calls \<^verbatim>\<open>create\<close>: for every host and every state the Volume has no mesh and
  the scene is untouched. With an explicit scale \<^verbatim>\<open>create\<close> is called and the Volume holds
  the handle of its mesh.
\<close>

theorem random_volume_never_created:
  "(\<forall>(host :: unit host) (w :: unit world).
      map_sum id mesh (fst (produce example_config host (Factory_init example_config) None w))
        = Inr None \<and>
      scene (snd (produce example_config host (Factory_init example_config) None w)) = scene w) \<and>
   map_sum id mesh
     (fst (produce example_config quiet_host (Factory_init example_config)
             (Some [PInt 1, PInt 1, PInt 1]) zero_world)) = Inr (Some 0)"
proof
  show "\<forall>(host :: unit host) (w :: unit world).
      map_sum id mesh (fst (produce example_config host (Factory_init example_config) None w))
        = Inr None \<and>
      scene (snd (produce example_config host (Factory_init example_config) None w)) = scene w"
  proof (intro allI)
    fix host :: "unit host" and w :: "unit world"
    let ?f = "Factory_init example_config"
    have "min_length ?f < max_length ?f" "min_width ?f < max_width ?f"
      "min_height ?f < max_height ?f"
      by (simp_all add: Factory_init_def example_config_def)
    from produce_random_value[OF this, of example_config w]
    obtain a b c w1 where
      p: "produce_random example_config ?f w
                = Volume_init example_config [PInt a, PInt b, PInt c] default_location w1"
      by auto
    show "map_sum id mesh (fst (produce example_config host ?f None w)) = Inr None \<and>
      scene (snd (produce example_config host ?f None w)) = scene w"
      by (simp add: produce_None p Volume_init_ints random_def)
  qed
next
  show "map_sum id mesh
     (fst (produce example_config quiet_host (Factory_init example_config)
             (Some [PInt 1, PInt 1, PInt 1]) zero_world)) = Inr (Some 0)"
    by (simp add: produce_def exc_bind_def exc_return_def Volume_init_ints create_def nest_def
        extrude_v_def triangulate_def quiet_host_def)
qed

section \<open>Placements per module type\<close>

text \<open>
  Claim C7. The attempted placements of a run of \<^verbatim>\<open>Volume.add_modules\<close> are an initial
  segment of the claimed placements, and all of them when the run returns without an
  exception: then, the keys of \<open>MODULES\<close> being distinct, a roof has exactly the one placement
  (axis 0, side 0) and every other type exactly the four placements with axis and side in
  \<open>{0, 1}\<close>.
\<close>

theorem placements_per_module_type:
  assumes "add_modules cfg host v (w, []) = (r, s')"
  shows "(\<exists>rest. claimed_placements (MODULES_keys cfg) = map attempt_key (snd s') @ rest \<and>
                  (r = Inr () \<longrightarrow> rest = [])) \<and>
         (r = Inr () \<and> distinct (MODULES_keys cfg) \<longrightarrow>
            (\<forall>m \<in> set (MODULES_keys cfg).
               map attempt_key (filter (\<lambda>a. a_module a = m) (snd s')) =
                 (if m = ''roof'' then [(m, 0, 0)]
                  else [(m, 0, 0), (m, 0, 1), (m, 1, 0), (m, 1, 1)])))"
proof -
  from add_modules_trace[OF assms] obtain rest where
    t: "claimed_placements (MODULES_keys cfg) = map attempt_key (snd s') @ rest"
      "r = Inr () \<longrightarrow> rest = []" by auto
  have "map attempt_key (filter (\<lambda>a. a_module a = m) (snd s')) =
      (if m = ''roof'' then [(m, 0, 0)] else [(m, 0, 0), (m, 0, 1), (m, 1, 0), (m, 1, 1)])"
    if "r = Inr ()" "distinct (MODULES_keys cfg)" "m \<in> set (MODULES_keys cfg)" for m
  proof -
    from t that(1) have "map attempt_key (snd s') = claimed_placements (MODULES_keys cfg)" by simp
    then show ?thesis
      using claimed_placements_count[OF that(2,3)] by (simp only: attempt_key_filter)
  qed
  with t show ?thesis by blast
qed

text \<open>
  The nine placements of three module types.
\<close>

theorem placements_per_module_type_witness:
  "map attempt_key (snd (snd (add_modules example_config quiet_host example_volume (zero_world, []))))
     = [(''window'', 0, 0), (''window'', 0, 1), (''window'', 1, 0), (''window'', 1, 1),
        (''balcony'', 0, 0), (''balcony'', 0, 1), (''balcony'', 1, 0), (''balcony'', 1, 1),
        (''roof'', 0, 0)] \<and>
   map attempt_key (filter (\<lambda>a. a_module a = ''roof'')
       (snd (snd (add_modules example_config quiet_host example_volume (zero_world, [])))))
     = [(''roof'', 0, 0)] \<and>
   map attempt_key (filter (\<lambda>a. a_module a = ''balcony'')
       (snd (snd (add_modules example_config quiet_host example_volume (zero_world, [])))))
     = [(''balcony'', 0, 0), (''balcony'', 0, 1), (''balcony'', 1, 0), (''balcony'', 1, 1)]"
proof -
  let ?run = "add_modules example_config quiet_host example_volume (zero_world, [])"
  have run: "?run = (Inr (), snd ?run)" by (simp add: add_modules_example)
  have k: "MODULES_keys example_config = [''window'', ''balcony'', ''roof'']"
    by (simp add: example_config_def)
  have d: "Inr () = (Inr () :: pyexc + unit) \<and> distinct (MODULES_keys example_config)"
    by (simp add: k)
  from placements_per_module_type[OF run] d
  have a: "claimed_placements (MODULES_keys example_config) = map attempt_key (snd (snd ?run))"
    and b: "\<forall>m \<in> set (MODULES_keys example_config).
               map attempt_key (filter (\<lambda>a. a_module a = m) (snd (snd ?run))) =
                 (if m = ''roof'' then [(m, 0, 0)]
                  else [(m, 0, 0), (m, 0, 1), (m, 1, 0), (m, 1, 1)])"
    by auto
  from a[symmetric] have "map attempt_key (snd (snd ?run))
     = [(''window'', 0, 0), (''window'', 0, 1), (''window'', 1, 0), (''window'', 1, 1),
        (''balcony'', 0, 0), (''balcony'', 0, 1), (''balcony'', 1, 0), (''balcony'', 1, 1),
        (''roof'', 0, 0)]"
    by (simp add: k claimed_placements_def)
  moreover from b have "map attempt_key (filter (\<lambda>a. a_module a = ''roof'') (snd (snd ?run)))
     = [(''roof'', 0, 0)]" by (simp add: k)
  moreover from b have "map attempt_key (filter (\<lambda>a. a_module a = ''balcony'') (snd (snd ?run)))
     = [(''balcony'', 0, 0), (''balcony'', 0, 1), (''balcony'', 1, 0), (''balcony'', 1, 1)]"
    by (simp add: k)
  ultimately show ?thesis by blast
qed

section \<open>Floor height\<close>



section \<open>Step size\<close>



section \<open>Assertions of the constructor\<close>



end
